theory Spec2Isabelle
  imports Complex_Main "HOL-Library.Sublist"
begin

section \<open>Python values and exceptions\<close>

text \<open>
  A float is a number or \<^verbatim>\<open>nan\<close>. The numbers are idealised as reals: rounding and
  the infinities are outside this model, \<^verbatim>\<open>nan\<close> is in it.
\<close>

datatype pyfloat = Num real | NaN

text \<open>
  The detector and the Flask handlers exchange plain Python dictionaries whose values are
  \<^verbatim>\<open>None\<close>, booleans, integers, floats, strings and lists.
\<close>

datatype pyval = PNone | PBool bool | PInt int | PFloat pyfloat | PStr string | PList "pyval list"

type_synonym pydict = "string \<rightharpoonup> pyval"

datatype exn_kind = TypeError | ValueError | KeyError | IndexError | AttributeError
  | OverflowError | RuntimeError | OtherException

text \<open>An exception is its class together with its message (\<^verbatim>\<open>str(e)\<close>).\<close>

type_synonym pyexn = "exn_kind \<times> string"

section \<open>Input size by architecture (\<^verbatim>\<open>SelfMADOfficialDetector.__init__\<close>)\<close>

text \<open>Python's \<^verbatim>\<open>sub in s\<close> on strings: \<^verbatim>\<open>sub\<close> occurs as a contiguous run of \<^verbatim>\<open>s\<close>.\<close>

fun contains :: "string \<Rightarrow> string \<Rightarrow> bool" where
  "contains sub [] = (sub = [])"
| "contains sub (c # cs) = (prefix sub (c # cs) \<or> contains sub cs)"

text \<open>Lines 96-111 of \<^verbatim>\<open>morph_detect_selfmad_official.py\<close>.\<close>

definition init_image_size :: "string \<Rightarrow> nat" where
  "init_image_size model_type =
     (if contains ''hrnet'' model_type then 384
      else if contains ''efficientnet'' model_type then
        (if contains ''b0'' model_type then 224
         else if contains ''b4'' model_type then 380
         else 224)
      else if contains ''swin'' model_type then 224
      else if contains ''resnet'' model_type then 224
      else 380)"

section \<open>Inference (\<^verbatim>\<open>SelfMADOfficialDetector.detect_morphing\<close>)\<close>

text \<open>
  The detector object: its architecture tag, the input size chosen at construction, and
  the arguments of every \<^verbatim>\<open>load_state_dict\<close> call made on its model so far, oldest
  first (an empty list is the architecture's pretrained default).
\<close>

record 'v detector =
  model_type :: string
  image_size :: nat
  load_calls :: "'v list"

text \<open>
  \<^verbatim>\<open>output.cpu().data.numpy()[0]\<close> is a one-dimensional array when the network
  returns a batch of score vectors, and a NumPy scalar when it returns a flat vector.
\<close>

datatype logits = Scalar pyfloat | Vec "pyfloat list"

text \<open>
  The library calls of the pipeline are parameters: \<open>load_image\<close> is lines 273-284
  (open, resize to the input size, transpose, scale, convert to a tensor) and
  \<open>forward\<close> is lines 299-301 (the network applied to the tensor, first row as NumPy).
  Either may raise.
\<close>

record 'x runtime =
  load_image :: "string \<Rightarrow> nat \<Rightarrow> pyexn + 'x"
  forward :: "'x \<Rightarrow> pyexn + logits"

definition preprocess_image :: "'x runtime \<Rightarrow> 'v detector \<Rightarrow> string \<Rightarrow> pyexn + 'x" where
  "preprocess_image rt self image_path =
     (case load_image rt image_path (image_size self) of
        Inl e \<Rightarrow> Inl (ValueError, ''Failed to preprocess image: '' @ snd e)
      | Inr img_tensor \<Rightarrow> Inr img_tensor)"

text \<open>Lines 303-307: the score at index 1 when there are two or more, else the value itself.\<close>

definition raw_logit_of :: "logits \<Rightarrow> pyexn + pyfloat" where
  "raw_logit_of lg =
     (case lg of
        Scalar x \<Rightarrow> Inr x
      | Vec xs \<Rightarrow>
          if length xs \<ge> 2 then Inr (xs ! 1)
          else (case xs of
                  [x] \<Rightarrow> Inr x
                | _ \<Rightarrow> Inl (TypeError, ''only length-1 arrays can be converted to Python scalars'')))"

text \<open>The comparison \<^verbatim>\<open>x <= y\<close> of two floats: false as soon as one of them is \<^verbatim>\<open>nan\<close>.\<close>

fun float_le :: "pyfloat \<Rightarrow> pyfloat \<Rightarrow> bool" where
  "float_le (Num a) (Num b) = (a \<le> b)"
| "float_le x y = False"

text \<open>
  \<^verbatim>\<open>np.argmax\<close> scans left to right and moves to an entry only when that entry is not
  below or equal to the best so far, so the first maximum wins; a \<^verbatim>\<open>nan\<close> counts as
  maximal and ends the scan.
\<close>

fun argmax_scan :: "pyfloat \<Rightarrow> nat \<Rightarrow> nat \<Rightarrow> pyfloat list \<Rightarrow> nat" where
  "argmax_scan best bi i [] = bi"
| "argmax_scan best bi i (x # xs) =
     (if best = NaN then bi
      else if \<not> float_le x best then argmax_scan x i (Suc i) xs
      else argmax_scan best bi (Suc i) xs)"

definition np_argmax :: "logits \<Rightarrow> pyexn + nat" where
  "np_argmax lg =
     (case lg of
        Scalar x \<Rightarrow> Inr 0
      | Vec [] \<Rightarrow> Inl (ValueError, ''attempt to get argmax of an empty sequence'')
      | Vec (x # xs) \<Rightarrow> Inr (argmax_scan x 0 1 xs))"

text \<open>\<^verbatim>\<open>torch.from_numpy\<close> accepts arrays only; a NumPy scalar raises TypeError.\<close>

definition torch_from_numpy :: "logits \<Rightarrow> pyexn + pyfloat list" where
  "torch_from_numpy lg =
     (case lg of
        Scalar x \<Rightarrow> Inl (TypeError, ''expected np.ndarray (got numpy.float32)'')
      | Vec xs \<Rightarrow> Inr xs)"

text \<open>The numbers of a list of floats, when none of them is \<^verbatim>\<open>nan\<close>.\<close>

fun nums :: "pyfloat list \<Rightarrow> real list option" where
  "nums [] = Some []"
| "nums (Num r # xs) = (case nums xs of None \<Rightarrow> None | Some rs \<Rightarrow> Some (r # rs))"
| "nums (NaN # xs) = None"

text \<open>
  \<^verbatim>\<open>F.softmax(..., dim=0)\<close>: the normalised exponentials; one \<^verbatim>\<open>nan\<close> among the
  scores makes the sum, and so every component, \<^verbatim>\<open>nan\<close>.
\<close>

definition softmax :: "pyfloat list \<Rightarrow> pyfloat list" where
  "softmax xs =
     (case nums xs of
        Some rs \<Rightarrow> map (\<lambda>x. Num (exp x / sum_list (map exp rs))) rs
      | None \<Rightarrow> map (\<lambda>x. NaN) xs)"

text \<open>Lines 312-313, the body of the inner \<^verbatim>\<open>try\<close>.\<close>

definition softmax_prob :: "logits \<Rightarrow> pyexn + pyfloat" where
  "softmax_prob lg =
     (case torch_from_numpy lg of
        Inl e \<Rightarrow> Inl e
      | Inr xs \<Rightarrow>
          (let probs = softmax xs in
           if length probs > 1 then Inr (probs ! 1)
           else (case probs of
                   [] \<Rightarrow> Inl (IndexError, ''index 0 is out of bounds for axis 0 with size 0'')
                 | p # _ \<Rightarrow> Inr p)))"

definition sigmoid :: "pyfloat \<Rightarrow> pyfloat" where
  "sigmoid raw_logit =
     (case raw_logit of
        Num r \<Rightarrow> Num (1 / (1 + exp (- r)))
      | NaN \<Rightarrow> NaN)"

text \<open>Lines 311-316: the inner \<^verbatim>\<open>try\<close> with its \<^verbatim>\<open>except Exception\<close> fallback.\<close>

definition prob_morphed :: "logits \<Rightarrow> pyfloat \<Rightarrow> pyfloat" where
  "prob_morphed lg raw_logit =
     (case softmax_prob lg of
        Inr p \<Rightarrow> p
      | Inl e \<Rightarrow> sigmoid raw_logit)"

text \<open>\<^verbatim>\<open>str.upper\<close> on the ASCII letters; other bytes are left as they are.\<close>

definition upper :: "string \<Rightarrow> string" where
  "upper s = map (\<lambda>c. if 97 \<le> (of_char c :: nat) \<and> (of_char c :: nat) \<le> 122
                       then char_of ((of_char c :: nat) - 32) else c) s"

text \<open>Lines 294-326, the body of the outer \<^verbatim>\<open>try\<close>.\<close>

definition detect_body :: "'x runtime \<Rightarrow> 'v detector \<Rightarrow> string \<Rightarrow> pyexn + pydict" where
  "detect_body rt self image_path =
     (case preprocess_image rt self image_path of
        Inl e \<Rightarrow> Inl e
      | Inr img_tensor \<Rightarrow>
     (case forward rt img_tensor of
        Inl e \<Rightarrow> Inl e
      | Inr lg \<Rightarrow>
     (case raw_logit_of lg of
        Inl e \<Rightarrow> Inl e
      | Inr raw_logit \<Rightarrow>
     (case np_argmax lg of
        Inl e \<Rightarrow> Inl e
      | Inr predicted_class \<Rightarrow>
          Inr [''image'' \<mapsto> PStr image_path,
               ''raw_logit'' \<mapsto> PFloat raw_logit,
               ''predicted_class'' \<mapsto> PInt (int predicted_class),
               ''prob_morphed'' \<mapsto> PFloat (prob_morphed lg raw_logit),
               ''class_name'' \<mapsto> PStr (if predicted_class = 1 then ''MORPHED'' else ''GENUINE''),
               ''model'' \<mapsto> PStr (''SelfMAD '' @ upper (model_type self))]))))"

text \<open>
  Lines 291-335. The outer \<^verbatim>\<open>except Exception\<close> turns every exception of the body
  into a dictionary with an \<^verbatim>\<open>error\<close> key. The result type keeps a place for an
  exception that would leave the function.
\<close>

definition detect_morphing :: "'x runtime \<Rightarrow> 'v detector \<Rightarrow> string \<Rightarrow> pyexn + pydict" where
  "detect_morphing rt self image_path =
     (case detect_body rt self image_path of
        Inr result \<Rightarrow> Inr result
      | Inl e \<Rightarrow>
          Inr [''image'' \<mapsto> PStr image_path,
               ''error'' \<mapsto> PStr (snd e),
               ''raw_logit'' \<mapsto> PNone,
               ''predicted_class'' \<mapsto> PNone,
               ''class_name'' \<mapsto> PNone])"

section \<open>Risk bands (\<^verbatim>\<open>analyze_image\<close>, \<^verbatim>\<open>analyze_image_base64\<close>)\<close>

datatype risk = LOW | MEDIUM | HIGH | CRITICAL

text \<open>
  The chain of comparisons at lines 170-177 and again at lines 298-305 of
  \<^verbatim>\<open>app.py\<close>; both handlers run the same text on \<^verbatim>\<open>prob\<close>.
\<close>

definition risk_level :: "real \<Rightarrow> risk" where
  "risk_level prob =
     (if prob \<ge> 0.9 then CRITICAL
      else if prob \<ge> 0.75 then HIGH
      else if prob \<ge> 0.5 then MEDIUM
      else LOW)"

section \<open>Checkpoint loading (\<^verbatim>\<open>SelfMADOfficialDetector.load_model\<close>)\<close>

text \<open>
  A deserialised checkpoint is a dictionary from keys to candidate weight mappings, or
  some other object. \<open>'v\<close> is whatever \<^verbatim>\<open>load_state_dict\<close> can be handed.
\<close>

datatype 'v ckpt = Mapping "string \<rightharpoonup> 'v" | NotMapping 'v

text \<open>
  The file system and the libraries as the loader sees them: \<^verbatim>\<open>torch.load\<close>,
  \<^verbatim>\<open>open\<close> followed by \<^verbatim>\<open>pickle.load\<close>, whether \<^verbatim>\<open>load_state_dict\<close> accepts
  a value (it raises otherwise), and the \<^verbatim>\<open>os.path\<close> functions.
\<close>

record 'v loader_env =
  torch_load :: "string \<Rightarrow> pyexn + 'v ckpt"
  pickle_load :: "string \<Rightarrow> pyexn + 'v ckpt"
  accepts :: "'v \<Rightarrow> bool"
  path_isdir :: "string \<Rightarrow> bool"
  path_exists :: "string \<Rightarrow> bool"
  path_join :: "string \<Rightarrow> string \<Rightarrow> string"
  path_dirname :: "string \<Rightarrow> string"

text \<open>\<^verbatim>\<open>s.endswith(suf)\<close>.\<close>

definition endswith :: "string \<Rightarrow> string \<Rightarrow> bool" where
  "endswith s suf = (length suf \<le> length s \<and> drop (length s - length suf) s = suf)"

text \<open>
  \<^verbatim>\<open>self.model.load_state_dict(v)\<close>: the call is recorded in the list of calls made
  on the model, whether or not it raises.
\<close>

definition load_state_dict :: "'v loader_env \<Rightarrow> 'v \<Rightarrow> 'v list \<Rightarrow> (pyexn + unit) \<times> 'v list" where
  "load_state_dict env v calls =
     (if accepts env v then (Inr (), calls @ [v])
      else (Inl (RuntimeError, ''Error(s) in loading state_dict''), calls @ [v]))"

text \<open>Lines 156-184. Every exception is caught and turned into \<^verbatim>\<open>False\<close>.\<close>

definition load_from_tar_file :: "'v loader_env \<Rightarrow> string \<Rightarrow> 'v list \<Rightarrow> bool \<times> 'v list" where
  "load_from_tar_file env tar_path calls =
     (case torch_load env tar_path of
        Inl e \<Rightarrow> (False, calls)
      | Inr (NotMapping v) \<Rightarrow> (False, calls)
      | Inr (Mapping checkpoint) \<Rightarrow>
          (case checkpoint ''model'' of
             Some v \<Rightarrow>
               (case load_state_dict env v calls of
                  (Inr u, calls') \<Rightarrow> (True, calls')
                | (Inl e, calls') \<Rightarrow> (False, calls'))
           | None \<Rightarrow>
               (case checkpoint ''state_dict'' of
                  Some v \<Rightarrow>
                    (case load_state_dict env v calls of
                       (Inr u, calls') \<Rightarrow> (True, calls')
                     | (Inl e, calls') \<Rightarrow> (False, calls'))
                | None \<Rightarrow> (False, calls))))"

text \<open>Lines 231-267.\<close>

definition load_from_pickle_file :: "'v loader_env \<Rightarrow> string \<Rightarrow> 'v list \<Rightarrow> bool \<times> 'v list" where
  "load_from_pickle_file env pickle_path calls =
     (case pickle_load env pickle_path of
        Inl e \<Rightarrow> (False, calls)
      | Inr (NotMapping v) \<Rightarrow> (False, calls)
      | Inr (Mapping data) \<Rightarrow>
          (case data ''model'' of
             Some v \<Rightarrow>
               (case load_state_dict env v calls of
                  (Inr u, calls') \<Rightarrow> (True, calls')
                | (Inl e, calls') \<Rightarrow> (False, calls'))
           | None \<Rightarrow>
               (case data ''state_dict'' of
                  Some v \<Rightarrow>
                    (case load_state_dict env v calls of
                       (Inr u, calls') \<Rightarrow> (True, calls')
                     | (Inl e, calls') \<Rightarrow> (False, calls'))
                | None \<Rightarrow>
                    (case data ''weights'' of
                       Some v \<Rightarrow>
                         (case load_state_dict env v calls of
                            (Inr u, calls') \<Rightarrow> (True, calls')
                          | (Inl e, calls') \<Rightarrow> (False, calls'))
                     | None \<Rightarrow> (False, calls)))))"

text \<open>
  Lines 208-229. The function calls itself on the \<^verbatim>\<open>.data\<close> subdirectory. The first
  argument is the number of nested calls the interpreter still allows: when none is left
  the call raises RecursionError, which the caller's \<^verbatim>\<open>except Exception\<close> turns into
  \<^verbatim>\<open>False\<close>.
\<close>

fun load_from_data_directory :: "nat \<Rightarrow> 'v loader_env \<Rightarrow> string \<Rightarrow> 'v list \<Rightarrow> bool \<times> 'v list" where
  "load_from_data_directory 0 env directory_path calls = (False, calls)"
| "load_from_data_directory (Suc depth) env directory_path calls =
     (let data_pkl_path = path_join env directory_path ''data.pkl'' in
      if path_exists env data_pkl_path then load_from_pickle_file env data_pkl_path calls
      else
        (let data_dir = path_join env directory_path ''.data'' in
         if path_isdir env data_dir then load_from_data_directory depth env data_dir calls
         else (False, calls)))"

text \<open>Lines 186-206.\<close>

definition try_alternative_loading ::
  "nat \<Rightarrow> 'v loader_env \<Rightarrow> string \<Rightarrow> 'v list \<Rightarrow> bool \<times> 'v list" where
  "try_alternative_loading depth env model_path calls =
     (if path_isdir env model_path then load_from_data_directory depth env model_path calls
      else if endswith model_path ''.pkl'' then load_from_pickle_file env model_path calls
      else
        (let parent_dir = path_dirname env model_path in
         if path_isdir env parent_dir then load_from_data_directory depth env parent_dir calls
         else (False, calls)))"

text \<open>Lines 124-144, the body of the \<^verbatim>\<open>try\<close> in \<^verbatim>\<open>load_model\<close>.\<close>

definition standard_load :: "'v loader_env \<Rightarrow> string \<Rightarrow> 'v list \<Rightarrow> (pyexn + unit) \<times> 'v list" where
  "standard_load env model_path calls =
     (case torch_load env model_path of
        Inl e \<Rightarrow> (Inl e, calls)
      | Inr (NotMapping v) \<Rightarrow> load_state_dict env v calls
      | Inr (Mapping checkpoint) \<Rightarrow>
          (case checkpoint ''model'' of
             Some v \<Rightarrow> load_state_dict env v calls
           | None \<Rightarrow>
               (case checkpoint ''state_dict'' of
                  Some v \<Rightarrow> load_state_dict env v calls
                | None \<Rightarrow>
                    (Inl (ValueError, ''No model or state_dict key found in checkpoint''),
                     calls))))"

text \<open>What a call returns to its caller: \<^verbatim>\<open>None\<close> or a boolean.\<close>

datatype retval = RetNone | RetBool bool

text \<open>
  Lines 115-154. A path ending in \<^verbatim>\<open>.tar\<close> returns whatever
  \<^verbatim>\<open>_load_from_tar_file\<close> returned; any other path returns \<^verbatim>\<open>None\<close> once some
  strategy has applied weights and raises RuntimeError when none has.
\<close>

definition load_model ::
  "nat \<Rightarrow> 'v loader_env \<Rightarrow> string \<Rightarrow> 'v list \<Rightarrow> (pyexn + retval) \<times> 'v list" where
  "load_model depth env model_path calls =
     (if endswith model_path ''.tar'' then
        (case load_from_tar_file env model_path calls of
           (b, calls') \<Rightarrow> (Inr (RetBool b), calls'))
      else
        (case standard_load env model_path calls of
           (Inr u, calls') \<Rightarrow> (Inr RetNone, calls')
         | (Inl e, calls') \<Rightarrow>
             (case try_alternative_loading depth env model_path calls' of
                (True, calls'') \<Rightarrow> (Inr RetNone, calls'')
              | (False, calls'') \<Rightarrow>
                  (Inl (RuntimeError,
                        ''Failed to load HRNet model from checkpoint. All loading methods failed.''),
                   calls''))))"

text \<open>
  Lines 86-113, the constructor. The value \<^verbatim>\<open>load_model\<close> returns is dropped; an
  exception it raises leaves the constructor.
\<close>

definition init_detector ::
  "nat \<Rightarrow> 'v loader_env \<Rightarrow> string option \<Rightarrow> string \<Rightarrow> pyexn + 'v detector" where
  "init_detector depth env model_path mtype =
     (case (case model_path of
              None \<Rightarrow> (Inr RetNone, [])
            | Some p \<Rightarrow> if p \<noteq> [] \<and> path_exists env p then load_model depth env p []
                        else (Inr RetNone, [])) of
        (Inl e, calls) \<Rightarrow> Inl e
      | (Inr r, calls) \<Rightarrow>
          Inr \<lparr>model_type = mtype, image_size = init_image_size mtype, load_calls = calls\<rparr>)"

section \<open>History log (\<^verbatim>\<open>history.json\<close>)\<close>

text \<open>What \<^verbatim>\<open>json.load\<close> returns for a well-formed file: an array, or some other JSON value.\<close>

datatype 'e jval = JList "'e list" | JNonList

text \<open>The persisted artifact: missing, present but not parseable, or present and parseable.\<close>

datatype 'e hfile = Absent | Corrupt | Valid "'e jval"

text \<open>
  Lines 203-209 (and 328-334): the read that precedes an insertion. A missing file and
  a file that \<^verbatim>\<open>json.load\<close> rejects both give the empty list.
\<close>

definition read_for_record :: "'e hfile \<Rightarrow> 'e jval" where
  "read_for_record f =
     (case f of
        Absent \<Rightarrow> JList []
      | Corrupt \<Rightarrow> JList []
      | Valid v \<Rightarrow> v)"

text \<open>
  Lines 199-229 (and 325-352): read, \<^verbatim>\<open>history.insert(0, summary)\<close>, keep the first
  100, write back. On a JSON value that is not an array the insertion raises
  AttributeError, the surrounding \<^verbatim>\<open>except Exception\<close> logs a warning, and the file
  is left as it was. Writing is taken to succeed.
\<close>

definition persist_history :: "'e \<Rightarrow> 'e hfile \<Rightarrow> 'e hfile" where
  "persist_history summary f =
     (case read_for_record f of
        JList history \<Rightarrow> Valid (JList (take 100 (summary # history)))
      | JNonList \<Rightarrow> f)"

datatype 'e history_response = HistoryOk "'e jval" | HistoryError nat string

text \<open>
  Lines 365-385, \<^verbatim>\<open>get_history\<close>: here \<^verbatim>\<open>json.load\<close> is not guarded on its own, so
  a file it rejects reaches the handler's \<^verbatim>\<open>except Exception\<close>, which answers with
  status 500.
\<close>

definition get_history :: "'e hfile \<Rightarrow> 'e history_response" where
  "get_history f =
     (case f of
        Absent \<Rightarrow> HistoryOk (JList [])
      | Valid history \<Rightarrow> HistoryOk history
      | Corrupt \<Rightarrow> HistoryError 500 ''Failed to read history'')"

section \<open>Analysis handlers (\<^verbatim>\<open>analyze_image\<close>, \<^verbatim>\<open>analyze_image_base64\<close>)\<close>

text \<open>
  What a handler draws from its surroundings once the upload has been validated and
  saved: the fresh identifier, the clock, the saved file's name and path, and Python's
  parser of float literals (used by \<^verbatim>\<open>float\<close> on a string).
\<close>

record request =
  new_id :: string
  now_iso :: string
  saved_name :: string
  saved_path :: string
  parse_float :: "string \<Rightarrow> pyfloat option"

text \<open>
  The integers that convert to a float: those that round to a finite double, which are
  the ones of absolute value below \<open>2 ^ 1024 - 2 ^ 970\<close>. On any other integer the
  conversion raises OverflowError.
\<close>

definition int_fits_float :: "int \<Rightarrow> bool" where
  "int_fits_float i = (\<bar>i\<bar> < 2 ^ 1024 - 2 ^ 970)"

text \<open>\<^verbatim>\<open>float(v)\<close>.\<close>

definition py_float :: "(string \<Rightarrow> pyfloat option) \<Rightarrow> pyval \<Rightarrow> pyexn + pyfloat" where
  "py_float parse v =
     (case v of
        PFloat x \<Rightarrow> Inr x
      | PInt i \<Rightarrow> if int_fits_float i then Inr (Num (of_int i))
                  else Inl (OverflowError, ''int too large to convert to float'')
      | PBool b \<Rightarrow> Inr (Num (if b then 1 else 0))
      | PStr s \<Rightarrow> (case parse s of
                     Some x \<Rightarrow> Inr x
                   | None \<Rightarrow> Inl (ValueError, ''could not convert string to float''))
      | PNone \<Rightarrow> Inl (TypeError, ''float() argument must be a string or a real number'')
      | PList xs \<Rightarrow> Inl (TypeError, ''float() argument must be a string or a real number''))"

text \<open>\<^verbatim>\<open>d.get(k, default)\<close>.\<close>

definition dict_get :: "pydict \<Rightarrow> string \<Rightarrow> pyval \<Rightarrow> pyval" where
  "dict_get d k dflt = (case d k of None \<Rightarrow> dflt | Some v \<Rightarrow> v)"

text \<open>
  \<^verbatim>\<open>round(x, 1)\<close> on a number: to one decimal place, a value half way between two
  candidates going to the even one.
\<close>

definition py_round1 :: "real \<Rightarrow> real" where
  "py_round1 x =
     (let y = x * 10; f = \<lfloor>y\<rfloor>; d = y - of_int f in
      (if d < 1 / 2 then of_int f
       else if d > 1 / 2 then of_int (f + 1)
       else if even f then of_int f
       else of_int (f + 1)) / 10)"

text \<open>
  \<^verbatim>\<open>round(prob * 100.0, 1)\<close>; on \<^verbatim>\<open>nan\<close> the product and its rounding are
  \<^verbatim>\<open>nan\<close>.
\<close>

definition confidence_pct :: "pyfloat \<Rightarrow> pyfloat" where
  "confidence_pct prob =
     (case prob of
        Num r \<Rightarrow> Num (py_round1 (r * 100))
      | NaN \<Rightarrow> NaN)"

text \<open>
  The chain of comparisons on the float \<^verbatim>\<open>prob\<close>: on \<^verbatim>\<open>nan\<close> each of the three
  comparisons is false and the chain ends in its \<^verbatim>\<open>else\<close>.
\<close>

definition risk_of :: "pyfloat \<Rightarrow> risk" where
  "risk_of prob =
     (case prob of
        Num r \<Rightarrow> risk_level r
      | NaN \<Rightarrow> LOW)"

text \<open>\<^verbatim>\<open>result.get('predicted_class') == 1\<close>; Python's \<^verbatim>\<open>True\<close> and \<^verbatim>\<open>1.0\<close> equal 1.\<close>

definition equals_one :: "pyval \<Rightarrow> bool" where
  "equals_one v =
     (case v of
        PInt i \<Rightarrow> i = 1
      | PFloat (Num r) \<Rightarrow> r = 1
      | PBool b \<Rightarrow> b
      | _ \<Rightarrow> False)"

text \<open>
  The format specification \<^verbatim>\<open>:.4f\<close> applies to numbers only, and converts an integer
  to a float first.
\<close>

definition format_4f :: "pyval \<Rightarrow> pyexn + unit" where
  "format_4f v =
     (case v of
        PFloat x \<Rightarrow> Inr ()
      | PInt i \<Rightarrow> if int_fits_float i then Inr ()
                  else Inl (OverflowError, ''int too large to convert to float'')
      | PBool b \<Rightarrow> Inr ()
      | PStr s \<Rightarrow> Inl (ValueError, ''Unknown format code f for object of type str'')
      | PNone \<Rightarrow> Inl (TypeError, ''unsupported format string passed to NoneType.__format__'')
      | PList xs \<Rightarrow> Inl (TypeError, ''unsupported format string passed to list.__format__''))"

text \<open>
  Line 231 (and 354), the closing log line: it indexes \<^verbatim>\<open>result['class_name']\<close> and
  formats \<^verbatim>\<open>result['raw_logit']\<close> with \<^verbatim>\<open>:.4f\<close>.
\<close>

definition log_completed :: "pydict \<Rightarrow> pyexn + unit" where
  "log_completed result =
     (case result ''class_name'' of
        None \<Rightarrow> Inl (KeyError, ''class_name'')
      | Some cn \<Rightarrow>
          (case result ''raw_logit'' of
             None \<Rightarrow> Inl (KeyError, ''raw_logit'')
           | Some rl \<Rightarrow> format_4f rl))"

record analysis_result =
  ar_analysis_id :: string
  ar_timestamp :: string
  ar_filename :: "string option"
  ar_raw_logit :: pyval
  ar_predicted_class :: pyval
  ar_class_name :: pyval
  ar_confidence :: pyfloat
  ar_model :: pyval
  ar_is_morphed :: bool
  ar_risk_level :: risk

record summary =
  hs_analysis_id :: string
  hs_timestamp :: string
  hs_filename :: string
  hs_class_name :: pyval
  hs_confidence :: pyfloat
  hs_risk_level :: risk
  hs_regions :: pyval
  hs_processing_time_ms :: pyval
  hs_thumbnail_url :: string

datatype failure = ModelNotInitialized | DetectionFailed pyval | AnalysisFailed pyexn

text \<open>A JSON body with \<^verbatim>\<open>'status': 'success'\<close>, or an error body with its HTTP status.\<close>

datatype response = Success analysis_result | Failure nat failure

text \<open>Lines 212-222 (and 336-346).\<close>

definition make_summary :: "analysis_result \<Rightarrow> string \<Rightarrow> pydict \<Rightarrow> summary" where
  "make_summary ar fname result =
     \<lparr>hs_analysis_id = ar_analysis_id ar,
      hs_timestamp = ar_timestamp ar,
      hs_filename = fname,
      hs_class_name = ar_class_name ar,
      hs_confidence = ar_confidence ar,
      hs_risk_level = ar_risk_level ar,
      hs_regions = dict_get result ''regions'' (PList []),
      hs_processing_time_ms = dict_get result ''processing_time_ms'' (PInt 0),
      hs_thumbnail_url = ''/uploads/'' @ fname\<rparr>"

text \<open>
  Lines 142-240 of \<^verbatim>\<open>app.py\<close>, from the check that a detector is loaded. The first
  argument is the module-level \<^verbatim>\<open>detector\<close> (its \<^verbatim>\<open>detect_morphing\<close>), or
  \<open>None\<close>. An exception anywhere is caught by the handler's \<^verbatim>\<open>except Exception\<close>
  and answered with status 500; the history file keeps what was written before.
\<close>

definition analyze_image ::
  "(string \<Rightarrow> pyexn + pydict) option \<Rightarrow> request \<Rightarrow> summary hfile \<Rightarrow> response \<times> summary hfile"
where
  "analyze_image detector rq hist =
     (case detector of
        None \<Rightarrow> (Failure 500 ModelNotInitialized, hist)
      | Some detect_morphing' \<Rightarrow>
     (case detect_morphing' (saved_path rq) of
        Inl e \<Rightarrow> (Failure 500 (AnalysisFailed e), hist)
      | Inr result \<Rightarrow>
     (case result ''error'' of
        Some err \<Rightarrow> (Failure 500 (DetectionFailed err), hist)
      | None \<Rightarrow>
     (case py_float (parse_float rq) (dict_get result ''prob_morphed'' (PFloat (Num 0))) of
        Inl e \<Rightarrow> (Failure 500 (AnalysisFailed e), hist)
      | Inr prob \<Rightarrow>
          (let analysis_result =
                 \<lparr>ar_analysis_id = new_id rq,
                  ar_timestamp = now_iso rq,
                  ar_filename = Some (saved_name rq),
                  ar_raw_logit = dict_get result ''raw_logit'' PNone,
                  ar_predicted_class = dict_get result ''predicted_class'' PNone,
                  ar_class_name = dict_get result ''class_name'' PNone,
                  ar_confidence = confidence_pct prob,
                  ar_model = dict_get result ''model'' PNone,
                  ar_is_morphed = equals_one (dict_get result ''predicted_class'' PNone),
                  ar_risk_level = risk_of prob\<rparr>;
               hist' = persist_history (make_summary analysis_result (saved_name rq) result) hist
           in (case log_completed result of
                 Inl e \<Rightarrow> (Failure 500 (AnalysisFailed e), hist')
               | Inr u \<Rightarrow> (Success analysis_result, hist')))))))"

text \<open>
  Lines 270-363: the same steps on the temporary file; the response carries no
  \<^verbatim>\<open>filename\<close>.
\<close>

definition analyze_image_base64 ::
  "(string \<Rightarrow> pyexn + pydict) option \<Rightarrow> request \<Rightarrow> summary hfile \<Rightarrow> response \<times> summary hfile"
where
  "analyze_image_base64 detector rq hist =
     (case detector of
        None \<Rightarrow> (Failure 500 ModelNotInitialized, hist)
      | Some detect_morphing' \<Rightarrow>
     (case detect_morphing' (saved_path rq) of
        Inl e \<Rightarrow> (Failure 500 (AnalysisFailed e), hist)
      | Inr result \<Rightarrow>
     (case result ''error'' of
        Some err \<Rightarrow> (Failure 500 (DetectionFailed err), hist)
      | None \<Rightarrow>
     (case py_float (parse_float rq) (dict_get result ''prob_morphed'' (PFloat (Num 0))) of
        Inl e \<Rightarrow> (Failure 500 (AnalysisFailed e), hist)
      | Inr prob \<Rightarrow>
          (let analysis_result =
                 \<lparr>ar_analysis_id = new_id rq,
                  ar_timestamp = now_iso rq,
                  ar_filename = None,
                  ar_raw_logit = dict_get result ''raw_logit'' PNone,
                  ar_predicted_class = dict_get result ''predicted_class'' PNone,
                  ar_class_name = dict_get result ''class_name'' PNone,
                  ar_confidence = confidence_pct prob,
                  ar_model = dict_get result ''model'' PNone,
                  ar_is_morphed = equals_one (dict_get result ''predicted_class'' PNone),
                  ar_risk_level = risk_of prob\<rparr>;
               hist' = persist_history (make_summary analysis_result (saved_name rq) result) hist
           in (case log_completed result of
                 Inl e \<Rightarrow> (Failure 500 (AnalysisFailed e), hist')
               | Inr u \<Rightarrow> (Success analysis_result, hist')))))))"

section \<open>Observers and example inputs\<close>

text \<open>The value a returned result dictionary holds under a key; none when the call raised.\<close>

definition result_field :: "pyexn + pydict \<Rightarrow> string \<Rightarrow> pyval option" where
  "result_field r k = (case r of Inl e \<Rightarrow> None | Inr d \<Rightarrow> d k)"

text \<open>The list an insertion starts from.\<close>

definition entries :: "'e hfile \<Rightarrow> 'e list" where
  "entries f = (case read_for_record f of JList history \<Rightarrow> history | JNonList \<Rightarrow> [])"

text \<open>A runtime whose network returns the given scores, and one whose forward pass raises.\<close>

definition const_runtime :: "logits \<Rightarrow> unit runtime" where
  "const_runtime lg = \<lparr>load_image = (\<lambda>p n. Inr ()), forward = (\<lambda>t. Inr lg)\<rparr>"

definition failing_runtime :: "pyexn \<Rightarrow> unit runtime" where
  "failing_runtime e = \<lparr>load_image = (\<lambda>p n. Inr ()), forward = (\<lambda>t. Inl e)\<rparr>"

definition b0_detector :: "unit detector" where
  "b0_detector = \<lparr>model_type = ''efficientnet-b0'', image_size = 224, load_calls = []\<rparr>"

text \<open>A checkpoint with both keys, and a file system where every load yields it.\<close>

definition both_keys :: "string \<rightharpoonup> nat" where
  "both_keys = [''model'' \<mapsto> 1, ''state_dict'' \<mapsto> 2]"

definition both_keys_env :: "nat loader_env" where
  "both_keys_env =
     \<lparr>torch_load = (\<lambda>p. Inr (Mapping both_keys)),
      pickle_load = (\<lambda>p. Inr (Mapping both_keys)),
      accepts = (\<lambda>v. True),
      path_isdir = (\<lambda>p. False),
      path_exists = (\<lambda>p. True),
      path_join = (\<lambda>a b. a @ ''/'' @ b),
      path_dirname = (\<lambda>p. ''.'')\<rparr>"

text \<open>A file system whose checkpoint file exists but cannot be deserialised.\<close>

definition broken_tar_env :: "nat loader_env" where
  "broken_tar_env =
     \<lparr>torch_load = (\<lambda>p. Inl (RuntimeError, ''invalid archive'')),
      pickle_load = (\<lambda>p. Inl (OtherException, ''invalid load key'')),
      accepts = (\<lambda>v. True),
      path_isdir = (\<lambda>p. False),
      path_exists = (\<lambda>p. True),
      path_join = (\<lambda>a b. a @ ''/'' @ b),
      path_dirname = (\<lambda>p. ''.'')\<rparr>"

text \<open>A detector that answers every path with the given dictionary, and a request.\<close>

definition const_detector :: "pydict \<Rightarrow> string \<Rightarrow> pyexn + pydict" where
  "const_detector d p = Inr d"

definition example_request :: request where
  "example_request =
     \<lparr>new_id = ''0001'', now_iso = ''2024-01-01T00:00:00'', saved_name = ''a.jpg'',
      saved_path = ''uploads/a.jpg'', parse_float = (\<lambda>s. None)\<rparr>"

text \<open>Two result dictionaries without \<^verbatim>\<open>error\<close> and without \<^verbatim>\<open>prob_morphed\<close>.\<close>

definition no_prob_result :: pydict where
  "no_prob_result = [''raw_logit'' \<mapsto> PFloat (Num 0), ''class_name'' \<mapsto> PStr ''GENUINE'']"


section \<open>Properties\<close>

lemma contains_iff_sublist: "contains sub s \<longleftrightarrow> sublist sub s"
  by (induction s) (auto simp: sublist_Cons_right)

lemma contains_iff: "contains sub s \<longleftrightarrow> (\<exists>ps ss. s = ps @ sub @ ss)"
  by (simp add: contains_iff_sublist sublist_def)

text \<open>
  Claim C1. The risk level is CRITICAL exactly for probabilities of at least 0.90, HIGH
  exactly on [0.75, 0.90), MEDIUM exactly on [0.50, 0.75) and LOW exactly below 0.50; the
  boundary values 0.5, 0.75 and 0.9 fall in the higher band.
\<close>

theorem risk_level_bands:
  "(risk_level p = CRITICAL \<longleftrightarrow> p \<ge> 0.9)
   \<and> (risk_level p = HIGH \<longleftrightarrow> 0.75 \<le> p \<and> p < 0.9)
   \<and> (risk_level p = MEDIUM \<longleftrightarrow> 0.5 \<le> p \<and> p < 0.75)
   \<and> (risk_level p = LOW \<longleftrightarrow> p < 0.5)
   \<and> risk_level 0.5 = MEDIUM \<and> risk_level 0.75 = HIGH \<and> risk_level 0.9 = CRITICAL"
  by (simp add: risk_level_def)

subsection \<open>Input size\<close>

text \<open>
  Claim C8. The input size follows the precedence table: a tag containing "hrnet" gives
  384; otherwise a tag containing "efficientnet" gives 224 with "b0", 380 with "b4"
  (and no "b0"), 224 with neither; otherwise a tag containing "swin" or "resnet" gives
  224; any other tag gives 380. "efficientnet-b4" gives 380 and "hrnet_w64" gives 384.
\<close>

theorem image_size_table:
  "(contains ''hrnet'' t \<longrightarrow> init_image_size t = 384)
   \<and> (\<not> contains ''hrnet'' t \<and> contains ''efficientnet'' t \<and> contains ''b0'' t
        \<longrightarrow> init_image_size t = 224)
   \<and> (\<not> contains ''hrnet'' t \<and> contains ''efficientnet'' t \<and> \<not> contains ''b0'' t
        \<and> contains ''b4'' t \<longrightarrow> init_image_size t = 380)
   \<and> (\<not> contains ''hrnet'' t \<and> contains ''efficientnet'' t \<and> \<not> contains ''b0'' t
        \<and> \<not> contains ''b4'' t \<longrightarrow> init_image_size t = 224)
   \<and> (\<not> contains ''hrnet'' t \<and> \<not> contains ''efficientnet'' t
        \<and> (contains ''swin'' t \<or> contains ''resnet'' t) \<longrightarrow> init_image_size t = 224)
   \<and> (\<not> contains ''hrnet'' t \<and> \<not> contains ''efficientnet'' t \<and> \<not> contains ''swin'' t
        \<and> \<not> contains ''resnet'' t \<longrightarrow> init_image_size t = 380)
   \<and> init_image_size ''efficientnet-b4'' = 380 \<and> init_image_size ''hrnet_w64'' = 384"
proof -
  have a: "init_image_size ''efficientnet-b4'' = 380" by (simp add: init_image_size_def)
  have b: "init_image_size ''hrnet_w64'' = 384" by (simp add: init_image_size_def)
  show ?thesis unfolding a b by (simp add: init_image_size_def)
qed

theorem image_size_table_witness:
  "contains ''hrnet'' ''hrnet_w18'' \<and> init_image_size ''hrnet_w18'' = 384
   \<and> contains ''b0'' ''efficientnet-b0'' \<and> init_image_size ''efficientnet-b0'' = 224
   \<and> contains ''b4'' ''efficientnet-b4'' \<and> init_image_size ''efficientnet-b4'' = 380
   \<and> contains ''efficientnet'' ''efficientnet-b7'' \<and> init_image_size ''efficientnet-b7'' = 224
   \<and> contains ''swin'' ''swin'' \<and> init_image_size ''swin'' = 224
   \<and> contains ''resnet'' ''resnet'' \<and> init_image_size ''resnet'' = 224
   \<and> init_image_size ''vgg16'' = 380"
proof -
  note T = image_size_table
  have h1: "contains ''hrnet'' ''hrnet_w18''" by simp
  have c1: "init_image_size ''hrnet_w18'' = 384" using T [of "''hrnet_w18''"] h1 by blast
  have h2: "\<not> contains ''hrnet'' ''efficientnet-b0'' \<and> contains ''efficientnet'' ''efficientnet-b0''
            \<and> contains ''b0'' ''efficientnet-b0''" by simp
  have c2: "init_image_size ''efficientnet-b0'' = 224" using T [of "''efficientnet-b0''"] h2 by blast
  have h3: "\<not> contains ''hrnet'' ''efficientnet-b4'' \<and> contains ''efficientnet'' ''efficientnet-b4''
            \<and> \<not> contains ''b0'' ''efficientnet-b4'' \<and> contains ''b4'' ''efficientnet-b4''" by simp
  have c3: "init_image_size ''efficientnet-b4'' = 380" using T [of "''efficientnet-b4''"] h3 by blast
  have h4: "\<not> contains ''hrnet'' ''efficientnet-b7'' \<and> contains ''efficientnet'' ''efficientnet-b7''
            \<and> \<not> contains ''b0'' ''efficientnet-b7'' \<and> \<not> contains ''b4'' ''efficientnet-b7''" by simp
  have c4: "init_image_size ''efficientnet-b7'' = 224" using T [of "''efficientnet-b7''"] h4 by blast
  have h5: "\<not> contains ''hrnet'' ''swin'' \<and> \<not> contains ''efficientnet'' ''swin''
            \<and> contains ''swin'' ''swin''" by simp
  have c5: "init_image_size ''swin'' = 224" using T [of "''swin''"] h5 by blast
  have h6: "\<not> contains ''hrnet'' ''resnet'' \<and> \<not> contains ''efficientnet'' ''resnet''
            \<and> contains ''resnet'' ''resnet''" by simp
  have c6: "init_image_size ''resnet'' = 224" using T [of "''resnet''"] h6 by blast
  have h7: "\<not> contains ''hrnet'' ''vgg16'' \<and> \<not> contains ''efficientnet'' ''vgg16''
            \<and> \<not> contains ''swin'' ''vgg16'' \<and> \<not> contains ''resnet'' ''vgg16''" by simp
  have c7: "init_image_size ''vgg16'' = 380" using T [of "''vgg16''"] h7 by blast
  from h1 c1 h2 c2 h3 c3 h4 c4 h5 c5 h6 c6 c7 show ?thesis by blast
qed

subsection \<open>Predicted class and probability\<close>

text \<open>
  On a vector of numbers the scan returns an index of the list, the entry there is a
  maximum, and every earlier entry is strictly smaller: \<^verbatim>\<open>np.argmax\<close> picks the first
  maximum.
\<close>

lemma argmax_scan_first_max:
  assumes "length pre = i" and "bi < i" and "pre ! bi = best"
    and "\<forall>j<i. pre ! j \<le> best" and "\<forall>j<bi. pre ! j < best"
  shows "argmax_scan (Num best) bi i (map Num xs) < length (pre @ xs)
         \<and> (\<forall>j<length (pre @ xs).
               (pre @ xs) ! j \<le> (pre @ xs) ! argmax_scan (Num best) bi i (map Num xs))
         \<and> (\<forall>j<argmax_scan (Num best) bi i (map Num xs).
               (pre @ xs) ! j < (pre @ xs) ! argmax_scan (Num best) bi i (map Num xs))"
  using assms
proof (induction xs arbitrary: pre i bi best)
  case Nil
  then show ?case by simp
next
  case (Cons x xs)
  show ?case
  proof (cases "x > best")
    case True
    have "argmax_scan (Num x) i (Suc i) (map Num xs) < length ((pre @ [x]) @ xs)
         \<and> (\<forall>j<length ((pre @ [x]) @ xs).
               ((pre @ [x]) @ xs) ! j \<le> ((pre @ [x]) @ xs) ! argmax_scan (Num x) i (Suc i) (map Num xs))
         \<and> (\<forall>j<argmax_scan (Num x) i (Suc i) (map Num xs).
               ((pre @ [x]) @ xs) ! j < ((pre @ [x]) @ xs) ! argmax_scan (Num x) i (Suc i) (map Num xs))"
    proof (rule Cons.IH)
      show "length (pre @ [x]) = Suc i" using Cons.prems by simp
      show "i < Suc i" by simp
      show "(pre @ [x]) ! i = x" using Cons.prems by (simp add: nth_append)
      show "\<forall>j<Suc i. (pre @ [x]) ! j \<le> x"
        using Cons.prems True by (auto simp: nth_append less_Suc_eq intro: less_imp_le order_trans)
      show "\<forall>j<i. (pre @ [x]) ! j < x"
        using Cons.prems True by (auto simp: nth_append intro: le_less_trans)
    qed
    with True show ?thesis by (simp add: not_le)
  next
    case False
    have "argmax_scan (Num best) bi (Suc i) (map Num xs) < length ((pre @ [x]) @ xs)
         \<and> (\<forall>j<length ((pre @ [x]) @ xs).
               ((pre @ [x]) @ xs) ! j \<le> ((pre @ [x]) @ xs) ! argmax_scan (Num best) bi (Suc i) (map Num xs))
         \<and> (\<forall>j<argmax_scan (Num best) bi (Suc i) (map Num xs).
               ((pre @ [x]) @ xs) ! j < ((pre @ [x]) @ xs) ! argmax_scan (Num best) bi (Suc i) (map Num xs))"
    proof (rule Cons.IH)
      show "length (pre @ [x]) = Suc i" using Cons.prems by simp
      show "bi < Suc i" using Cons.prems by simp
      show "(pre @ [x]) ! bi = best" using Cons.prems by (simp add: nth_append)
      show "\<forall>j<Suc i. (pre @ [x]) ! j \<le> best"
        using Cons.prems False by (auto simp: nth_append less_Suc_eq)
      show "\<forall>j<bi. (pre @ [x]) ! j < best"
        using Cons.prems by (auto simp: nth_append)
    qed
    with False show ?thesis by (simp add: not_less)
  qed
qed

lemma np_argmax_first_max:
  assumes "zs \<noteq> []"
  shows "\<exists>k. np_argmax (Vec (map Num zs)) = Inr k \<and> k < length zs
             \<and> (\<forall>j<length zs. zs ! j \<le> zs ! k) \<and> (\<forall>j<k. zs ! j < zs ! k)"
proof -
  from assms obtain x xs where zs: "zs = x # xs" by (cases zs) auto
  have "argmax_scan (Num x) 0 1 (map Num xs) < length ([x] @ xs)
         \<and> (\<forall>j<length ([x] @ xs). ([x] @ xs) ! j \<le> ([x] @ xs) ! argmax_scan (Num x) 0 1 (map Num xs))
         \<and> (\<forall>j<argmax_scan (Num x) 0 1 (map Num xs).
               ([x] @ xs) ! j < ([x] @ xs) ! argmax_scan (Num x) 0 1 (map Num xs))"
    by (rule argmax_scan_first_max) auto
  then show ?thesis by (simp add: zs np_argmax_def)
qed

lemma softmax_pair:
  "softmax [Num a, Num b] = [Num (exp a / (exp a + exp b)), Num (exp b / (exp a + exp b))]"
  by (simp add: softmax_def)

lemma nums_NaN: "NaN \<in> set xs \<Longrightarrow> nums xs = None"
  by (induction xs rule: nums.induct) (auto split: option.splits)

lemma softmax_NaN: "NaN \<in> set xs \<Longrightarrow> softmax xs = map (\<lambda>x. NaN) xs"
  by (simp add: softmax_def nums_NaN)

lemma nums_length: "nums xs = Some rs \<Longrightarrow> length rs = length xs"
  by (induction xs arbitrary: rs rule: nums.induct) (auto split: option.splits)

lemma length_softmax: "length (softmax xs) = length xs"
  by (auto simp: softmax_def nums_length split: option.splits)

lemma float_le_refl_iff: "float_le a a \<longleftrightarrow> a \<noteq> NaN"
  by (cases a) simp_all

text \<open>
  Claim C9. When the two raw scores are exactly equal, the predicted class is 0 and the
  class name is "GENUINE": the tie goes to the lower index.
\<close>

theorem tie_predicts_genuine:
  assumes "preprocess_image rt self p = Inr t" and "forward rt t = Inr (Vec [a, a])"
  shows "np_argmax (Vec [a, a]) = Inr 0
         \<and> result_field (detect_morphing rt self p) ''predicted_class'' = Some (PInt 0)
         \<and> result_field (detect_morphing rt self p) ''class_name'' = Some (PStr ''GENUINE'')"
  using assms
  by (simp add: np_argmax_def result_field_def detect_morphing_def detect_body_def raw_logit_of_def
      float_le_refl_iff)

theorem tie_predicts_genuine_witness:
  "preprocess_image (const_runtime (Vec [Num 0.1, Num 0.1])) b0_detector ''a.jpg'' = Inr ()
   \<and> forward (const_runtime (Vec [Num 0.1, Num 0.1])) () = Inr (Vec [Num 0.1, Num 0.1])
   \<and> result_field (detect_morphing (const_runtime (Vec [Num 0.1, Num 0.1])) b0_detector ''a.jpg'')
        ''predicted_class'' = Some (PInt 0)
   \<and> result_field (detect_morphing (const_runtime (Vec [Num 0.1, Num 0.1])) b0_detector ''a.jpg'')
        ''class_name'' = Some (PStr ''GENUINE'')"
proof -
  have h1: "preprocess_image (const_runtime (Vec [Num 0.1, Num 0.1])) b0_detector ''a.jpg'' = Inr ()"
    by (simp add: preprocess_image_def const_runtime_def)
  have h2: "forward (const_runtime (Vec [Num 0.1, Num 0.1])) () = Inr (Vec [Num 0.1, Num 0.1])"
    by (simp add: const_runtime_def)
  from tie_predicts_genuine [OF h1 h2] h1 h2 show ?thesis by simp
qed

text \<open>
  Claim C7. For a pair of raw scores the morphed probability is the component at index 1
  of the softmax over the two scores; when the softmax step raises, the probability is
  the logistic transform \<open>1 / (1 + exp (- r))\<close> of the raw morphed-class logit \<open>r\<close>, which
  for a pair is the score at index 1.
\<close>

theorem prob_morphed_softmax:
  "prob_morphed (Vec [Num a, Num b]) q = Num (exp b / (exp a + exp b))
   \<and> prob_morphed (Vec [x, y]) q = softmax [x, y] ! 1
   \<and> (softmax_prob lg = Inl e \<longrightarrow> prob_morphed lg (Num r) = Num (1 / (1 + exp (- r))))
   \<and> (preprocess_image rt self p = Inr t \<and> forward rt t = Inr (Vec [Num a, Num b]) \<longrightarrow>
        result_field (detect_morphing rt self p) ''raw_logit'' = Some (PFloat (Num b))
        \<and> result_field (detect_morphing rt self p) ''prob_morphed''
            = Some (PFloat (Num (exp b / (exp a + exp b)))))
   \<and> (preprocess_image rt self p = Inr t \<and> forward rt t = Inr lg \<and> softmax_prob lg = Inl e
        \<and> raw_logit_of lg = Inr (Num r) \<and> np_argmax lg = Inr c \<longrightarrow>
        result_field (detect_morphing rt self p) ''prob_morphed''
            = Some (PFloat (Num (1 / (1 + exp (- r))))))"
proof -
  have len: "length (softmax [x, y]) = 2" by (simp add: length_softmax)
  have 1: "prob_morphed (Vec [Num a, Num b]) q' = Num (exp b / (exp a + exp b))" for q'
    by (simp add: prob_morphed_def softmax_prob_def torch_from_numpy_def softmax_pair)
  have 2: "prob_morphed (Vec [x, y]) q = softmax [x, y] ! 1"
    using len by (simp add: prob_morphed_def softmax_prob_def torch_from_numpy_def Let_def)
  have 3: "softmax_prob lg = Inl e \<longrightarrow> prob_morphed lg (Num r) = Num (1 / (1 + exp (- r)))"
    by (simp add: prob_morphed_def sigmoid_def)
  have 4: "preprocess_image rt self p = Inr t \<and> forward rt t = Inr (Vec [Num a, Num b]) \<longrightarrow>
        result_field (detect_morphing rt self p) ''raw_logit'' = Some (PFloat (Num b))
        \<and> result_field (detect_morphing rt self p) ''prob_morphed''
            = Some (PFloat (Num (exp b / (exp a + exp b))))"
    by (simp add: 1 result_field_def detect_morphing_def detect_body_def raw_logit_of_def
        np_argmax_def)
  have 5: "preprocess_image rt self p = Inr t \<and> forward rt t = Inr lg \<and> softmax_prob lg = Inl e
        \<and> raw_logit_of lg = Inr (Num r) \<and> np_argmax lg = Inr c \<longrightarrow>
        result_field (detect_morphing rt self p) ''prob_morphed''
            = Some (PFloat (Num (1 / (1 + exp (- r)))))"
    using 3 by (simp add: result_field_def detect_morphing_def detect_body_def)
  from 1 2 3 4 5 show ?thesis by blast
qed

theorem prob_morphed_softmax_witness:
  "softmax_prob (Scalar (Num 0)) = Inl (TypeError, ''expected np.ndarray (got numpy.float32)'')
   \<and> prob_morphed (Scalar (Num 0)) (Num 0) = Num (1 / 2)
   \<and> result_field (detect_morphing (const_runtime (Vec [Num 0, Num 0])) b0_detector ''a.jpg'')
        ''prob_morphed'' = Some (PFloat (Num (1 / 2)))
   \<and> result_field (detect_morphing (const_runtime (Scalar (Num 0))) b0_detector ''a.jpg'')
        ''prob_morphed'' = Some (PFloat (Num (1 / 2)))"
proof -
  let ?e = "(TypeError, ''expected np.ndarray (got numpy.float32)'')"
  have f: "softmax_prob (Scalar (Num 0)) = Inl ?e"
    by (simp add: softmax_prob_def torch_from_numpy_def)
  have p: "preprocess_image (const_runtime lg) b0_detector ''a.jpg'' = Inr ()" for lg
    by (simp add: preprocess_image_def const_runtime_def)
  have w: "forward (const_runtime lg) () = Inr lg" for lg
    by (simp add: const_runtime_def)
  have r: "raw_logit_of (Scalar (Num 0)) = Inr (Num 0)" by (simp add: raw_logit_of_def)
  have c: "np_argmax (Scalar (Num 0)) = Inr 0" by (simp add: np_argmax_def)
  have 1: "prob_morphed (Scalar (Num 0)) (Num 0) = Num (1 / (1 + exp (- 0)))"
    using prob_morphed_softmax
            [where a = 0 and b = 0 and q = "Num 0" and x = "Num 0" and y = "Num 0"
               and lg = "Scalar (Num 0)" and e = ?e and r = 0
               and rt = "const_runtime (Scalar (Num 0))" and self = b0_detector
               and p = "''a.jpg''" and t = "()" and c = 0]
      f by blast
  have 2: "result_field (detect_morphing (const_runtime (Vec [Num 0, Num 0])) b0_detector ''a.jpg'')
             ''prob_morphed'' = Some (PFloat (Num (exp 0 / (exp 0 + exp 0))))"
    using prob_morphed_softmax
            [where a = 0 and b = 0 and q = "Num 0" and x = "Num 0" and y = "Num 0"
               and lg = "Scalar (Num 0)" and e = ?e and r = 0
               and rt = "const_runtime (Vec [Num 0, Num 0])" and self = b0_detector
               and p = "''a.jpg''" and t = "()" and c = 0]
      p w by blast
  have 3: "result_field (detect_morphing (const_runtime (Scalar (Num 0))) b0_detector ''a.jpg'')
             ''prob_morphed'' = Some (PFloat (Num (1 / (1 + exp (- 0)))))"
    using prob_morphed_softmax
            [where a = 0 and b = 0 and q = "Num 0" and x = "Num 0" and y = "Num 0"
               and lg = "Scalar (Num 0)" and e = ?e and r = 0
               and rt = "const_runtime (Scalar (Num 0))" and self = b0_detector
               and p = "''a.jpg''" and t = "()" and c = 0]
      p w f r c by blast
  from f 1 2 3 show ?thesis by simp
qed

lemma prob_morphed_NaN: "NaN \<in> set xs \<Longrightarrow> prob_morphed (Vec xs) q = NaN"
  by (cases xs)
    (auto simp: prob_morphed_def softmax_prob_def torch_from_numpy_def softmax_NaN Let_def
      split: list.splits)

text \<open>
  Claim C6, as stated: on every input whose forward pass meets a numeric error (a shape
  mismatch, a NaN that propagates) the inference operation raises InferenceFailure and
  returns no partially valid result. Neither half holds. With a forward pass that raises
  on a shape mismatch, \<open>detect_morphing\<close> returns, the message under \<^verbatim>\<open>error\<close>. With
  the scores 0.3 and \<^verbatim>\<open>nan\<close> it returns as well, with no \<^verbatim>\<open>error\<close>, the class
  MORPHED and the probability \<^verbatim>\<open>nan\<close>.
\<close>

theorem detect_morphing_raise_counterexample:
  "\<not> isl (detect_morphing (failing_runtime (RuntimeError, ''shape mismatch'')) b0_detector ''a.jpg'')
   \<and> result_field (detect_morphing (failing_runtime (RuntimeError, ''shape mismatch''))
        b0_detector ''a.jpg'') ''error'' = Some (PStr ''shape mismatch'')
   \<and> \<not> isl (detect_morphing (const_runtime (Vec [Num 0.3, NaN])) b0_detector ''a.jpg'')
   \<and> result_field (detect_morphing (const_runtime (Vec [Num 0.3, NaN])) b0_detector ''a.jpg'')
        ''error'' = None
   \<and> result_field (detect_morphing (const_runtime (Vec [Num 0.3, NaN])) b0_detector ''a.jpg'')
        ''class_name'' = Some (PStr ''MORPHED'')
   \<and> result_field (detect_morphing (const_runtime (Vec [Num 0.3, NaN])) b0_detector ''a.jpg'')
        ''prob_morphed'' = Some (PFloat NaN)"
  by (simp add: detect_morphing_def detect_body_def preprocess_image_def failing_runtime_def
      const_runtime_def result_field_def raw_logit_of_def np_argmax_def prob_morphed_def
      softmax_prob_def torch_from_numpy_def softmax_def)

text \<open>
  Claim C6, amended. On an input whose forward pass meets a numeric error the inference
  operation does not raise. When the forward pass raises (a shape mismatch), the result
  holds the exception's message under \<^verbatim>\<open>error\<close>, \<^verbatim>\<open>None\<close> under \<^verbatim>\<open>raw_logit\<close>,
  \<^verbatim>\<open>predicted_class\<close> and \<^verbatim>\<open>class_name\<close>, and no \<^verbatim>\<open>prob_morphed\<close>. When a
  \<^verbatim>\<open>nan\<close> is among the scores the forward pass returns, nothing is raised and no
  \<^verbatim>\<open>error\<close> is reported: the result holds a \<^verbatim>\<open>raw_logit\<close>, the class
  \<^verbatim>\<open>np.argmax\<close> picks with its name, and \<^verbatim>\<open>nan\<close> as \<^verbatim>\<open>prob_morphed\<close>, which is a
  partially valid result.
\<close>

theorem detect_morphing_reports_error:
  "\<not> isl (detect_morphing rt self p)
   \<and> (preprocess_image rt self p = Inr t \<and> forward rt t = Inl e \<longrightarrow>
        result_field (detect_morphing rt self p) ''error'' = Some (PStr (snd e))
        \<and> result_field (detect_morphing rt self p) ''raw_logit'' = Some PNone
        \<and> result_field (detect_morphing rt self p) ''predicted_class'' = Some PNone
        \<and> result_field (detect_morphing rt self p) ''class_name'' = Some PNone
        \<and> result_field (detect_morphing rt self p) ''prob_morphed'' = None)
   \<and> (preprocess_image rt self p = Inr t \<and> forward rt t = Inr (Vec xs) \<and> NaN \<in> set xs
        \<and> raw_logit_of (Vec xs) = Inr r \<and> np_argmax (Vec xs) = Inr k \<longrightarrow>
        result_field (detect_morphing rt self p) ''error'' = None
        \<and> result_field (detect_morphing rt self p) ''raw_logit'' = Some (PFloat r)
        \<and> result_field (detect_morphing rt self p) ''predicted_class'' = Some (PInt (int k))
        \<and> result_field (detect_morphing rt self p) ''class_name''
            = Some (PStr (if k = 1 then ''MORPHED'' else ''GENUINE''))
        \<and> result_field (detect_morphing rt self p) ''prob_morphed'' = Some (PFloat NaN))
   \<and> (preprocess_image rt self p = Inr t \<and> forward rt t = Inr (Scalar NaN) \<longrightarrow>
        result_field (detect_morphing rt self p) ''error'' = None
        \<and> result_field (detect_morphing rt self p) ''raw_logit'' = Some (PFloat NaN)
        \<and> result_field (detect_morphing rt self p) ''predicted_class'' = Some (PInt 0)
        \<and> result_field (detect_morphing rt self p) ''class_name'' = Some (PStr ''GENUINE'')
        \<and> result_field (detect_morphing rt self p) ''prob_morphed'' = Some (PFloat NaN))"
proof -
  have 1: "\<not> isl (detect_morphing rt self p)"
    by (simp add: detect_morphing_def split: sum.splits)
  have 2: "preprocess_image rt self p = Inr t \<and> forward rt t = Inl e \<longrightarrow>
        result_field (detect_morphing rt self p) ''error'' = Some (PStr (snd e))
        \<and> result_field (detect_morphing rt self p) ''raw_logit'' = Some PNone
        \<and> result_field (detect_morphing rt self p) ''predicted_class'' = Some PNone
        \<and> result_field (detect_morphing rt self p) ''class_name'' = Some PNone
        \<and> result_field (detect_morphing rt self p) ''prob_morphed'' = None"
    by (simp add: detect_morphing_def detect_body_def result_field_def)
  have 3: "preprocess_image rt self p = Inr t \<and> forward rt t = Inr (Vec xs) \<and> NaN \<in> set xs
        \<and> raw_logit_of (Vec xs) = Inr r \<and> np_argmax (Vec xs) = Inr k \<longrightarrow>
        result_field (detect_morphing rt self p) ''error'' = None
        \<and> result_field (detect_morphing rt self p) ''raw_logit'' = Some (PFloat r)
        \<and> result_field (detect_morphing rt self p) ''predicted_class'' = Some (PInt (int k))
        \<and> result_field (detect_morphing rt self p) ''class_name''
            = Some (PStr (if k = 1 then ''MORPHED'' else ''GENUINE''))
        \<and> result_field (detect_morphing rt self p) ''prob_morphed'' = Some (PFloat NaN)"
    by (simp add: detect_morphing_def detect_body_def result_field_def prob_morphed_NaN)
  have 4: "preprocess_image rt self p = Inr t \<and> forward rt t = Inr (Scalar NaN) \<longrightarrow>
        result_field (detect_morphing rt self p) ''error'' = None
        \<and> result_field (detect_morphing rt self p) ''raw_logit'' = Some (PFloat NaN)
        \<and> result_field (detect_morphing rt self p) ''predicted_class'' = Some (PInt 0)
        \<and> result_field (detect_morphing rt self p) ''class_name'' = Some (PStr ''GENUINE'')
        \<and> result_field (detect_morphing rt self p) ''prob_morphed'' = Some (PFloat NaN)"
    by (simp add: detect_morphing_def detect_body_def result_field_def raw_logit_of_def
        np_argmax_def prob_morphed_def softmax_prob_def torch_from_numpy_def sigmoid_def)
  from 1 2 3 4 show ?thesis by blast
qed

theorem detect_morphing_reports_error_witness:
  "preprocess_image (failing_runtime (RuntimeError, ''shape mismatch'')) b0_detector ''a.jpg'' = Inr ()
   \<and> forward (failing_runtime (RuntimeError, ''shape mismatch'')) () = Inl (RuntimeError, ''shape mismatch'')
   \<and> result_field (detect_morphing (failing_runtime (RuntimeError, ''shape mismatch''))
        b0_detector ''a.jpg'') ''error'' = Some (PStr ''shape mismatch'')
   \<and> result_field (detect_morphing (failing_runtime (RuntimeError, ''shape mismatch''))
        b0_detector ''a.jpg'') ''prob_morphed'' = None
   \<and> preprocess_image (const_runtime (Vec [Num 0.3, NaN])) b0_detector ''a.jpg'' = Inr ()
   \<and> forward (const_runtime (Vec [Num 0.3, NaN])) () = Inr (Vec [Num 0.3, NaN])
   \<and> NaN \<in> set [Num 0.3, NaN]
   \<and> raw_logit_of (Vec [Num 0.3, NaN]) = Inr NaN
   \<and> np_argmax (Vec [Num 0.3, NaN]) = Inr 1
   \<and> result_field (detect_morphing (const_runtime (Vec [Num 0.3, NaN])) b0_detector ''a.jpg'')
        ''error'' = None
   \<and> result_field (detect_morphing (const_runtime (Vec [Num 0.3, NaN])) b0_detector ''a.jpg'')
        ''raw_logit'' = Some (PFloat NaN)
   \<and> result_field (detect_morphing (const_runtime (Vec [Num 0.3, NaN])) b0_detector ''a.jpg'')
        ''predicted_class'' = Some (PInt 1)
   \<and> result_field (detect_morphing (const_runtime (Vec [Num 0.3, NaN])) b0_detector ''a.jpg'')
        ''class_name'' = Some (PStr ''MORPHED'')
   \<and> result_field (detect_morphing (const_runtime (Vec [Num 0.3, NaN])) b0_detector ''a.jpg'')
        ''prob_morphed'' = Some (PFloat NaN)
   \<and> preprocess_image (const_runtime (Scalar NaN)) b0_detector ''a.jpg'' = Inr ()
   \<and> forward (const_runtime (Scalar NaN)) () = Inr (Scalar NaN)
   \<and> result_field (detect_morphing (const_runtime (Scalar NaN)) b0_detector ''a.jpg'')
        ''prob_morphed'' = Some (PFloat NaN)"
proof -
  let ?e = "(RuntimeError, ''shape mismatch'')"
  let ?rt = "failing_runtime ?e"
  let ?xs = "[Num 0.3, NaN]"
  let ?nr = "const_runtime (Vec ?xs)"
  let ?sr = "const_runtime (Scalar NaN)"
  have p: "preprocess_image ?rt b0_detector ''a.jpg'' = Inr ()"
    by (simp add: preprocess_image_def failing_runtime_def)
  have w: "forward ?rt () = Inl ?e"
    by (simp add: failing_runtime_def)
  have p': "preprocess_image (const_runtime lg) b0_detector ''a.jpg'' = Inr ()" for lg
    by (simp add: preprocess_image_def const_runtime_def)
  have w': "forward (const_runtime lg) () = Inr lg" for lg
    by (simp add: const_runtime_def)
  have n: "NaN \<in> set ?xs" by simp
  have r: "raw_logit_of (Vec ?xs) = Inr NaN" by (simp add: raw_logit_of_def)
  have k: "np_argmax (Vec ?xs) = Inr 1" by (simp add: np_argmax_def)
  have a: "result_field (detect_morphing ?rt b0_detector ''a.jpg'') ''error'' = Some (PStr (snd ?e))
           \<and> result_field (detect_morphing ?rt b0_detector ''a.jpg'') ''prob_morphed'' = None"
    using detect_morphing_reports_error
            [where rt = ?rt and self = b0_detector and p = "''a.jpg''" and t = "()" and e = ?e
               and xs = ?xs and r = NaN and k = 1]
      p w by blast
  have b: "result_field (detect_morphing ?nr b0_detector ''a.jpg'') ''error'' = None
        \<and> result_field (detect_morphing ?nr b0_detector ''a.jpg'') ''raw_logit'' = Some (PFloat NaN)
        \<and> result_field (detect_morphing ?nr b0_detector ''a.jpg'') ''predicted_class'' = Some (PInt (int 1))
        \<and> result_field (detect_morphing ?nr b0_detector ''a.jpg'') ''class_name''
            = Some (PStr (if (1::nat) = 1 then ''MORPHED'' else ''GENUINE''))
        \<and> result_field (detect_morphing ?nr b0_detector ''a.jpg'') ''prob_morphed'' = Some (PFloat NaN)"
    using detect_morphing_reports_error
            [where rt = ?nr and self = b0_detector and p = "''a.jpg''" and t = "()" and e = ?e
               and xs = ?xs and r = NaN and k = 1]
      p' w' n r k by blast
  have c: "result_field (detect_morphing ?sr b0_detector ''a.jpg'') ''prob_morphed'' = Some (PFloat NaN)"
    using detect_morphing_reports_error
            [where rt = ?sr and self = b0_detector and p = "''a.jpg''" and t = "()" and e = ?e
               and xs = ?xs and r = NaN and k = 1]
      p' w' by blast
  from p w p' w' n r k a b c show ?thesis by simp
qed

subsection \<open>Checkpoint loading\<close>

lemma load_state_dict_calls: "snd (load_state_dict env v calls) = calls @ [v]"
  by (simp add: load_state_dict_def)

text \<open>
  Claim C2. When a checkpoint deserialises to a mapping that has both a "model" and a
  "state_dict" key, each strategy (the standard load, the .tar load and the pickle load)
  looks at "model" first: its one call of \<^verbatim>\<open>load_state_dict\<close> is on the value under
  "model", and the value under "state_dict" is never passed. When that value is accepted,
  \<open>load_model\<close> returns with exactly this call made.
\<close>

theorem model_key_first:
  assumes "d ''model'' = Some m" and "d ''state_dict'' = Some s"
  shows "(torch_load env p = Inr (Mapping d) \<longrightarrow>
            snd (standard_load env p calls) = calls @ [m]
            \<and> isl (fst (standard_load env p calls)) = (\<not> accepts env m))
       \<and> (torch_load env p = Inr (Mapping d) \<longrightarrow>
            load_from_tar_file env p calls = (accepts env m, calls @ [m]))
       \<and> (pickle_load env p = Inr (Mapping d) \<longrightarrow>
            load_from_pickle_file env p calls = (accepts env m, calls @ [m]))
       \<and> (torch_load env p = Inr (Mapping d) \<and> accepts env m \<longrightarrow>
            snd (load_model depth env p calls) = calls @ [m]
            \<and> \<not> isl (fst (load_model depth env p calls)))"
  using assms
  by (simp add: standard_load_def load_from_tar_file_def load_from_pickle_file_def
      load_state_dict_def load_model_def)

theorem model_key_first_witness:
  "both_keys ''model'' = Some 1 \<and> both_keys ''state_dict'' = Some 2
   \<and> torch_load both_keys_env ''ckpt.pth'' = Inr (Mapping both_keys)
   \<and> pickle_load both_keys_env ''data.pkl'' = Inr (Mapping both_keys)
   \<and> accepts both_keys_env 1
   \<and> snd (standard_load both_keys_env ''ckpt.pth'' []) = [1]
   \<and> \<not> isl (fst (standard_load both_keys_env ''ckpt.pth'' []))
   \<and> load_from_tar_file both_keys_env ''ckpt.pth'' [] = (True, [1])
   \<and> load_from_pickle_file both_keys_env ''data.pkl'' [] = (True, [1])
   \<and> snd (load_model 1000 both_keys_env ''ckpt.pth'' []) = [1]
   \<and> \<not> isl (fst (load_model 1000 both_keys_env ''ckpt.pth'' []))"
proof -
  have m: "both_keys ''model'' = Some 1" by (simp add: both_keys_def)
  have s: "both_keys ''state_dict'' = Some 2" by (simp add: both_keys_def)
  have t: "torch_load both_keys_env ''ckpt.pth'' = Inr (Mapping both_keys)"
    by (simp add: both_keys_env_def)
  have k: "pickle_load both_keys_env ''data.pkl'' = Inr (Mapping both_keys)"
    by (simp add: both_keys_env_def)
  have a: "accepts both_keys_env 1" by (simp add: both_keys_env_def)
  have c1: "snd (standard_load both_keys_env ''ckpt.pth'' []) = [] @ [1]
            \<and> isl (fst (standard_load both_keys_env ''ckpt.pth'' [])) = (\<not> accepts both_keys_env 1)"
    using model_key_first [OF m s, of both_keys_env "''ckpt.pth''" "[]"] t by blast
  have c2: "load_from_tar_file both_keys_env ''ckpt.pth'' [] = (accepts both_keys_env 1, [] @ [1])"
    using model_key_first [OF m s, of both_keys_env "''ckpt.pth''" "[]"] t by blast
  have c3: "load_from_pickle_file both_keys_env ''data.pkl'' [] = (accepts both_keys_env 1, [] @ [1])"
    using model_key_first [OF m s, of both_keys_env "''data.pkl''" "[]"] k by blast
  have c4: "snd (load_model 1000 both_keys_env ''ckpt.pth'' []) = [] @ [1]
            \<and> \<not> isl (fst (load_model 1000 both_keys_env ''ckpt.pth'' []))"
    using model_key_first [OF m s, of both_keys_env "''ckpt.pth''" "[]" 1000] t a by blast
  from m s t k a c1 c2 c3 c4 show ?thesis by simp
qed

text \<open>A path ending in \<^verbatim>\<open>.tar\<close> never makes \<open>load_model\<close> raise, whatever the archive holds.\<close>

lemma load_model_tar_never_raises:
  "endswith p ''.tar'' \<Longrightarrow> \<not> isl (fst (load_model depth env p calls))"
  by (simp add: load_model_def split: prod.splits)

text \<open>
  Claim C3, evaluated where it fails. The checkpoint file exists and cannot be
  deserialised. For the path \<^verbatim>\<open>model.tar\<close>, \<open>load_model\<close> returns \<^verbatim>\<open>False\<close> with no
  call of \<^verbatim>\<open>load_state_dict\<close> made and the constructor completes on default weights;
  for the path \<^verbatim>\<open>model.pth\<close> in the same surroundings \<open>load_model\<close> raises.
\<close>

theorem load_model_tar_silent:
  "load_model 1000 broken_tar_env ''model.tar'' [] = (Inr (RetBool False), [])
   \<and> init_detector 1000 broken_tar_env (Some ''model.tar'') ''hrnet_w18''
       = Inr \<lparr>model_type = ''hrnet_w18'', image_size = 384, load_calls = []\<rparr>
   \<and> load_model 1000 broken_tar_env ''model.pth'' []
       = (Inl (RuntimeError,
               ''Failed to load HRNet model from checkpoint. All loading methods failed.''), [])"
  by (simp add: load_model_def endswith_def load_from_tar_file_def broken_tar_env_def
      init_detector_def init_image_size_def standard_load_def try_alternative_loading_def)

subsection \<open>History\<close>

text \<open>
  Claim C4, as stated: a corrupt history artifact makes the listing return an empty
  sequence. It does not: the listing of a corrupt artifact is not the empty list.
\<close>

theorem get_history_corrupt_counterexample:
  "get_history (Corrupt :: summary hfile) \<noteq> HistoryOk (JList [])"
  by (simp add: get_history_def)

text \<open>
  Claim C4, amended. On a corrupt artifact the listing does not raise; it answers with
  an error (status 500, "Failed to read history"). A missing artifact lists as the empty
  sequence, and recording on a corrupt artifact starts from the empty log.
\<close>

theorem get_history_corrupt:
  "get_history Corrupt = HistoryError 500 ''Failed to read history''
   \<and> get_history Absent = HistoryOk (JList [])
   \<and> persist_history s Corrupt = Valid (JList [s])"
  by (simp add: get_history_def persist_history_def read_for_record_def)

lemma persist_history_list:
  "f \<noteq> Valid JNonList \<Longrightarrow> persist_history s f = Valid (JList (take 100 (s # entries f)))"
  by (cases f; simp add: persist_history_def entries_def read_for_record_def split: jval.splits)

lemma entries_Valid_JList: "entries (Valid (JList xs)) = xs"
  by (simp add: entries_def read_for_record_def)

lemma fold_persist_list:
  "rs \<noteq> [] \<Longrightarrow> f \<noteq> Valid JNonList \<Longrightarrow>
   fold persist_history rs f = Valid (JList (take 100 (rev rs @ entries f)))"
proof (induction rs arbitrary: f)
  case Nil
  then show ?case by simp
next
  case (Cons r rs)
  have step: "persist_history r f = Valid (JList (take 100 (r # entries f)))"
    using Cons.prems by (simp add: persist_history_list)
  show ?case
  proof (cases "rs = []")
    case True
    then show ?thesis using step by simp
  next
    case False
    have "fold persist_history rs (Valid (JList (take 100 (r # entries f))))
          = Valid (JList (take 100 (rev rs @ entries (Valid (JList (take 100 (r # entries f)))))))"
      using False by (intro Cons.IH) simp_all
    moreover have "take 100 (rev rs @ take 100 (r # entries f)) = take 100 (rev (r # rs) @ entries f)"
      by (simp add: take_Cons' min_def)
    ultimately show ?thesis using step by (simp add: entries_Valid_JList)
  qed
qed

text \<open>
  Claim C5. Starting from an artifact that is missing, corrupt or an array, each record
  is put at the front and the list is cut to 100 entries before it is written, so the
  written list never has more than 100 entries; after the records \<open>rs\<close> (in the order
  they were made) the listing is the first 100 of the reversed records followed by the
  old entries, and after 150 records it is exactly the last 100 of them, newest first.
\<close>

theorem history_capped:
  assumes "f \<noteq> Valid JNonList"
  shows "persist_history s f = Valid (JList (take 100 (s # entries f)))
       \<and> length (entries (persist_history s f)) \<le> 100
       \<and> (rs \<noteq> [] \<longrightarrow> get_history (fold persist_history rs f)
              = HistoryOk (JList (take 100 (rev rs @ entries f))))
       \<and> (length rs = 150 \<longrightarrow> get_history (fold persist_history rs f)
              = HistoryOk (JList (rev (drop 50 rs)))
            \<and> length (rev (drop 50 rs)) = 100)"
proof -
  have 1: "persist_history s f = Valid (JList (take 100 (s # entries f)))"
    using assms by (rule persist_history_list)
  have 2: "length (entries (persist_history s f)) \<le> 100"
    by (simp add: 1 entries_Valid_JList)
  have 3: "get_history (fold persist_history rs f)
              = HistoryOk (JList (take 100 (rev rs @ entries f)))" if "rs \<noteq> []"
    using that assms by (simp add: fold_persist_list get_history_def)
  have 4: "take 100 (rev rs @ entries f) = rev (drop 50 rs)" if "length rs = 150"
  proof -
    have "take 100 (rev rs) = rev (drop 50 rs)" using that by (simp add: take_rev)
    then show ?thesis using that by simp
  qed
  have 5: "rs \<noteq> []" if "length rs = 150" using that by auto
  from 1 2 3 4 5 show ?thesis by simp
qed

theorem history_capped_witness:
  "(Absent :: nat hfile) \<noteq> Valid JNonList
   \<and> length [0..<150] = 150
   \<and> persist_history (7::nat) Absent = Valid (JList [7])
   \<and> get_history (fold persist_history [1, 2, 3 :: nat] Absent) = HistoryOk (JList [3, 2, 1])
   \<and> get_history (fold persist_history [0..<150] Absent) = HistoryOk (JList (rev [50..<150]))
   \<and> length (rev [50..<150]) = 100"
proof -
  have h: "(Absent :: nat hfile) \<noteq> Valid JNonList" by simp
  have e: "entries (Absent :: nat hfile) = []" by (simp add: entries_def read_for_record_def)
  have l: "length [0..<150] = 150" by simp
  have n: "[1, 2, 3 :: nat] \<noteq> []" by simp
  have 1: "persist_history (7::nat) Absent = Valid (JList (take 100 (7 # entries Absent)))"
    using history_capped [OF h, of 7 "[0..<150]"] by blast
  have 2: "get_history (fold persist_history [1, 2, 3 :: nat] Absent)
           = HistoryOk (JList (take 100 (rev [1, 2, 3] @ entries Absent)))"
    using history_capped [OF h, of 7 "[1, 2, 3]"] n by blast
  have 3: "get_history (fold persist_history [0..<150] Absent) = HistoryOk (JList (rev (drop 50 [0..<150])))"
    using history_capped [OF h, of 7 "[0..<150]"] l by blast
  from h l 1 2 3 show ?thesis by (simp add: e)
qed

subsection \<open>The handlers\<close>

text \<open>
  On a result without \<^verbatim>\<open>error\<close> both handlers take the risk level from the chain of
  comparisons on the probability and the confidence from its rounding, put both in the
  response, and hand the same values to the history.
\<close>

lemma handlers_use_risk_level:
  assumes "detector (saved_path rq) = Inr result" and "result ''error'' = None"
    and "py_float (parse_float rq) (dict_get result ''prob_morphed'' (PFloat (Num 0))) = Inr (Num pr)"
  shows "(fst (analyze_image (Some detector) rq hist) = Success ar \<longrightarrow>
            ar_risk_level ar = risk_level pr \<and> ar_confidence ar = Num (py_round1 (pr * 100)))
       \<and> (fst (analyze_image_base64 (Some detector) rq hist) = Success ar \<longrightarrow>
            ar_risk_level ar = risk_level pr \<and> ar_confidence ar = Num (py_round1 (pr * 100)))
       \<and> (\<exists>s. snd (analyze_image (Some detector) rq hist) = persist_history s hist
             \<and> hs_risk_level s = risk_level pr)
       \<and> (\<exists>s. snd (analyze_image_base64 (Some detector) rq hist) = persist_history s hist
             \<and> hs_risk_level s = risk_level pr)"
  using assms
  by (auto simp: analyze_image_def analyze_image_base64_def Let_def risk_of_def
      confidence_pct_def make_summary_def split: sum.splits)

lemma confidence_pct_0: "confidence_pct (Num 0) = Num 0"
  by (simp add: confidence_pct_def py_round1_def)

lemma risk_of_0: "risk_of (Num 0) = LOW"
  by (simp add: risk_of_def risk_level_def)

text \<open>
  Where the closing log line finds \<^verbatim>\<open>class_name\<close> and can format \<^verbatim>\<open>raw_logit\<close>, a
  result without \<^verbatim>\<open>error\<close> and without \<^verbatim>\<open>prob_morphed\<close> is answered with a success
  by both handlers, with confidence 0.0 and risk LOW, and with \<^verbatim>\<open>is_morphed\<close> false
  when \<^verbatim>\<open>predicted_class\<close> is absent too.
\<close>

lemma defaults_when_log_line_formats:
  assumes "detector (saved_path rq) = Inr result"
    and "result ''error'' = None" and "result ''prob_morphed'' = None"
    and "result ''class_name'' = Some cn" and "result ''raw_logit'' = Some rl"
    and "format_4f rl = Inr ()"
  shows "(case fst (analyze_image (Some detector) rq hist) of
            Success ar \<Rightarrow> ar_confidence ar = Num 0 \<and> ar_risk_level ar = LOW
              \<and> (result ''predicted_class'' = None \<longrightarrow> \<not> ar_is_morphed ar)
          | Failure code why \<Rightarrow> False)
       \<and> (case fst (analyze_image_base64 (Some detector) rq hist) of
            Success ar \<Rightarrow> ar_confidence ar = Num 0 \<and> ar_risk_level ar = LOW
              \<and> (result ''predicted_class'' = None \<longrightarrow> \<not> ar_is_morphed ar)
          | Failure code why \<Rightarrow> False)"
  using assms
  by (simp add: analyze_image_def analyze_image_base64_def py_float_def dict_get_def
      log_completed_def Let_def confidence_pct_0 risk_of_0 equals_one_def)

lemma defaults_when_log_line_formats_example:
  "fst (analyze_image (Some (const_detector no_prob_result)) example_request Absent)
     = Success \<lparr>ar_analysis_id = ''0001'', ar_timestamp = ''2024-01-01T00:00:00'',
                ar_filename = Some ''a.jpg'', ar_raw_logit = PFloat (Num 0),
                ar_predicted_class = PNone, ar_class_name = PStr ''GENUINE'',
                ar_confidence = Num 0, ar_model = PNone, ar_is_morphed = False,
                ar_risk_level = LOW\<rparr>"
  by (simp add: no_prob_result_def analyze_image_def const_detector_def example_request_def
      py_float_def dict_get_def log_completed_def format_4f_def Let_def confidence_pct_0
      risk_of_0 equals_one_def)

text \<open>An integer beyond the float range is refused by \<^verbatim>\<open>float\<close> and by \<^verbatim>\<open>:.4f\<close> alike.\<close>

lemma int_beyond_float_range:
  "py_float parse (PInt (10 ^ 400)) = Inl (OverflowError, ''int too large to convert to float'')
   \<and> format_4f (PInt (10 ^ 400)) = Inl (OverflowError, ''int too large to convert to float'')
   \<and> format_4f (PInt (2 ^ 1024 - 2 ^ 970 - 1)) = Inr ()"
  by (simp add: py_float_def format_4f_def int_fits_float_def)


end
